theory Spec2Isabelle
  imports Main "HOL-Library.AList"
begin

section \<open>Settings records of \<^verbatim>\<open>SiteSettingsContext.tsx\<close>\<close>

text \<open>
  The TypeScript interfaces become records. Three interfaces have a field
  \<^verbatim>\<open>enabled\<close>; the records prefix it (\<open>cd_\<close>, \<open>pp_\<close>, \<open>sm_\<close>). A JavaScript
  \<^verbatim>\<open>number\<close> is only stored and copied by this code, never computed with;
  it is an \<open>int\<close> here.
\<close>

datatype jsval =
    JNull
  | JBool bool
  | JNum int
  | JStr string
  | JArr "jsval list"
  | JObj "(string \<times> jsval) list"

text \<open>
  \<^verbatim>\<open>ShippingProvince\<close> is declared in \<^verbatim>\<open>../data/shippingProvinces\<close>; the
  code under study only passes province records around, so a province is an
  opaque value.
\<close>

type_synonym ShippingProvince = jsval

record CountdownSettings =
  cd_enabled :: bool
  targetDate :: string
  title :: string

record PasswordProtection =
  pp_enabled :: bool
  password :: string

record ShippingSettings =
  provinces :: "ShippingProvince list"
  freeShippingThreshold :: int
  minPrice :: int
  maxPrice :: int

record SocialMediaSettings =
  instagram :: string
  twitter :: string
  facebook :: string
  youtube :: string
  tiktok :: string
  sm_enabled :: bool

record SiteSettings =
  countdownSettings :: CountdownSettings
  passwordProtection :: PasswordProtection
  shippingSettings :: ShippingSettings
  socialMedia :: SocialMediaSettings
  isUnlocked :: bool
  isAdmin :: bool
  isLoading :: bool
  currency :: string

text \<open>
  \<^verbatim>\<open>Partial<T>\<close>: every field may be missing. \<open>None\<close> is a key that the
  partial object does not have.
\<close>

record CountdownSettings_partial =
  cd_enabled_opt :: "bool option"
  targetDate_opt :: "string option"
  title_opt :: "string option"

record ShippingSettings_partial =
  provinces_opt :: "ShippingProvince list option"
  freeShippingThreshold_opt :: "int option"
  minPrice_opt :: "int option"
  maxPrice_opt :: "int option"

record SocialMediaSettings_partial =
  instagram_opt :: "string option"
  twitter_opt :: "string option"
  facebook_opt :: "string option"
  youtube_opt :: "string option"
  tiktok_opt :: "string option"
  sm_enabled_opt :: "bool option"

text \<open>
  The payload that the subscription hands to its callback: the value at
  \<^verbatim>\<open>siteSettings\<close>. The callback reads four properties of it and stores
  them, unchecked, in state of type \<^verbatim>\<open>SiteSettings\<close>; the payload has the
  types that this gives the four properties, each of which may be missing.
  The whole payload is \<open>None\<close> when the callback receives \<^verbatim>\<open>null\<close>.
\<close>

record payload =
  pl_countdownSettings :: "CountdownSettings option"
  pl_passwordProtection :: "PasswordProtection option"
  pl_shippingSettings :: "ShippingSettings option"
  pl_socialMedia :: "SocialMediaSettings option"

section \<open>The module constant \<^verbatim>\<open>defaultSettings\<close>\<close>

text \<open>
  Two parts of \<^verbatim>\<open>defaultSettings\<close> are fixed when the module is loaded and
  are not literals of the file: the ISO string of the instant seven days after
  loading, and the province table imported from
  \<^verbatim>\<open>../data/shippingProvinces\<close>. Both are parameters.
\<close>

record load_env =
  seven_days_from_now :: string
  shippingProvinces :: "ShippingProvince list"

definition defaultSettings :: "load_env \<Rightarrow> SiteSettings" where
  "defaultSettings env =
     \<lparr> countdownSettings =
         \<lparr> cd_enabled = True,
           targetDate = seven_days_from_now env,
           title = ''Next Drop Coming Soon'' \<rparr>,
       passwordProtection =
         \<lparr> pp_enabled = True,
           password = ''password123'' \<rparr>,
       shippingSettings =
         \<lparr> provinces = shippingProvinces env,
           freeShippingThreshold = 5000,
           minPrice = 300,
           maxPrice = 800 \<rparr>,
       socialMedia =
         \<lparr> instagram = ''https://instagram.com/drp'',
           twitter = ''https://twitter.com/drp'',
           facebook = ''https://facebook.com/drp'',
           youtube = ''https://youtube.com/drp'',
           tiktok = ''https://tiktok.com/@drp'',
           sm_enabled = True \<rparr>,
       isUnlocked = False,
       isAdmin = False,
       isLoading = True,
       currency = ''DZD'' \<rparr>"

section \<open>The subscription callback\<close>

text \<open>
  \<^verbatim>\<open>x || d\<close> where \<open>x\<close> is an object or \<^verbatim>\<open>undefined\<close>: an object is truthy.
\<close>

definition or_default :: "'a option \<Rightarrow> 'a \<Rightarrow> 'a" where
  "or_default x d = (case x of Some v \<Rightarrow> v | None \<Rightarrow> d)"

definition watchHandler :: "load_env \<Rightarrow> payload option \<Rightarrow> SiteSettings \<Rightarrow> SiteSettings" where
  "watchHandler env data prev =
     (case data of
        Some d \<Rightarrow>
          prev\<lparr> countdownSettings :=
                  or_default (pl_countdownSettings d) (countdownSettings (defaultSettings env)),
                passwordProtection :=
                  or_default (pl_passwordProtection d) (passwordProtection (defaultSettings env)),
                shippingSettings :=
                  or_default (pl_shippingSettings d) (shippingSettings (defaultSettings env)),
                socialMedia :=
                  or_default (pl_socialMedia d) (socialMedia (defaultSettings env)),
                isLoading := False \<rparr>
      | None \<Rightarrow> prev\<lparr> isLoading := False \<rparr>)"

section \<open>The hook \<^verbatim>\<open>useSiteSettings\<close>\<close>

text \<open>
  \<^verbatim>\<open>useContext\<close> gives the provider's value, or \<^verbatim>\<open>undefined\<close> (the default
  of \<^verbatim>\<open>createContext\<close>) when no provider is above the caller. The thrown
  \<^verbatim>\<open>Error\<close> is \<open>Inl\<close> of its message.
\<close>

definition useSiteSettings :: "'ctx option \<Rightarrow> string + 'ctx" where
  "useSiteSettings context =
     (case context of
        None \<Rightarrow> Inl ''useSiteSettings must be used within a SiteSettingsProvider''
      | Some c \<Rightarrow> Inr c)"

section \<open>The remote document store\<close>

text \<open>
  Modelled from the spec: \<^verbatim>\<open>readData\<close>, \<^verbatim>\<open>writeData\<close> and \<^verbatim>\<open>watchData\<close> are
  imported from \<^verbatim>\<open>../lib/firebase\<close>, which is not among the sources. The
  spec asks of the store a point read of a path returning existence and
  value, and a point write of a path with a value. The store is a tree of
  values addressed by slash-separated paths. A call may fail (the promise is
  rejected); which calls fail is a parameter of the store. Every call is
  recorded, also a failed one.
\<close>

type_synonym js_error = string

primrec path_segments :: "string \<Rightarrow> string list" where
  "path_segments [] = [[]]"
| "path_segments (c # cs) =
     (if c = CHR ''/'' then [] # path_segments cs
      else (case path_segments cs of
              seg # segs \<Rightarrow> (c # seg) # segs
            | [] \<Rightarrow> [[c]]))"

definition path_keys :: "string \<Rightarrow> string list" where
  "path_keys path = filter (\<lambda>seg. seg \<noteq> []) (path_segments path)"

fun jget :: "jsval \<Rightarrow> string list \<Rightarrow> jsval" where
  "jget v [] = v"
| "jget (JObj kvs) (k # ks) =
     (case map_of kvs k of None \<Rightarrow> JNull | Some child \<Rightarrow> jget child ks)"
| "jget _ (k # ks) = JNull"

fun jset :: "jsval \<Rightarrow> string list \<Rightarrow> jsval \<Rightarrow> jsval" where
  "jset _ [] v = v"
| "jset (JObj kvs) (k # ks) v =
     JObj (AList.update k
             (jset (case map_of kvs k of None \<Rightarrow> JNull | Some child \<Rightarrow> child) ks v) kvs)"
| "jset _ (k # ks) v = JObj [(k, jset JNull ks v)]"

datatype remote_call = ReadCall string | WriteCall string jsval

record remote =
  root :: jsval
  read_fault :: "string \<Rightarrow> js_error option"
  write_fault :: "string \<Rightarrow> js_error option"
  calls :: "remote_call list"

datatype snapshot = Snapshot jsval

definition snapshot_exists :: "snapshot \<Rightarrow> bool" where
  "snapshot_exists s = (case s of Snapshot v \<Rightarrow> v \<noteq> JNull)"

definition snapshot_val :: "snapshot \<Rightarrow> jsval" where
  "snapshot_val s = (case s of Snapshot v \<Rightarrow> v)"

definition readData :: "string \<Rightarrow> remote \<Rightarrow> (js_error + snapshot) \<times> remote" where
  "readData path r =
     (case read_fault r path of
        Some e \<Rightarrow> (Inl e, r\<lparr> calls := calls r @ [ReadCall path] \<rparr>)
      | None \<Rightarrow> (Inr (Snapshot (jget (root r) (path_keys path))),
                 r\<lparr> calls := calls r @ [ReadCall path] \<rparr>))"

definition writeData :: "string \<Rightarrow> jsval \<Rightarrow> remote \<Rightarrow> (js_error + unit) \<times> remote" where
  "writeData path v r =
     (case write_fault r path of
        Some e \<Rightarrow> (Inl e, r\<lparr> calls := calls r @ [WriteCall path v] \<rparr>)
      | None \<Rightarrow> (Inr (),
                 r\<lparr> root := jset (root r) (path_keys path) v,
                    calls := calls r @ [WriteCall path v] \<rparr>))"

section \<open>Values written to the store\<close>

text \<open>The object literals and settings objects that the code hands to \<^verbatim>\<open>writeData\<close>.\<close>

definition js_CountdownSettings :: "CountdownSettings \<Rightarrow> jsval" where
  "js_CountdownSettings c =
     JObj [(''enabled'', JBool (cd_enabled c)),
           (''targetDate'', JStr (targetDate c)),
           (''title'', JStr (title c))]"

definition js_PasswordProtection :: "PasswordProtection \<Rightarrow> jsval" where
  "js_PasswordProtection p =
     JObj [(''enabled'', JBool (pp_enabled p)),
           (''password'', JStr (password p))]"

definition js_ShippingSettings :: "ShippingSettings \<Rightarrow> jsval" where
  "js_ShippingSettings s =
     JObj [(''provinces'', JArr (provinces s)),
           (''freeShippingThreshold'', JNum (freeShippingThreshold s)),
           (''minPrice'', JNum (minPrice s)),
           (''maxPrice'', JNum (maxPrice s))]"

definition js_SocialMediaSettings :: "SocialMediaSettings \<Rightarrow> jsval" where
  "js_SocialMediaSettings m =
     JObj [(''instagram'', JStr (instagram m)),
           (''twitter'', JStr (twitter m)),
           (''facebook'', JStr (facebook m)),
           (''youtube'', JStr (youtube m)),
           (''tiktok'', JStr (tiktok m)),
           (''enabled'', JBool (sm_enabled m))]"

definition initial_document :: "load_env \<Rightarrow> jsval" where
  "initial_document env =
     JObj [(''countdownSettings'', js_CountdownSettings (countdownSettings (defaultSettings env))),
           (''passwordProtection'', js_PasswordProtection (passwordProtection (defaultSettings env))),
           (''shippingSettings'', js_ShippingSettings (shippingSettings (defaultSettings env))),
           (''socialMedia'', js_SocialMediaSettings (socialMedia (defaultSettings env)))]"

section \<open>The provider's state and its surroundings\<close>

text \<open>
  Session storage and local storage hold strings under keys. \<^verbatim>\<open>setItem\<close>
  throws when the browser refuses the item (the quota is exceeded, or storage
  is disabled); for which keys it does is part of the storage. \<^verbatim>\<open>getItem\<close>
  gives \<^verbatim>\<open>null\<close> (\<open>None\<close>) for a key that is not stored, and
  \<^verbatim>\<open>removeItem\<close> removes a key.
\<close>

record storage =
  items :: "string \<rightharpoonup> string"
  setItem_fault :: "string \<Rightarrow> js_error option"

definition setItem :: "string \<Rightarrow> string \<Rightarrow> storage \<Rightarrow> js_error + storage" where
  "setItem key v s =
     (case setItem_fault s key of
        Some e \<Rightarrow> Inl e
      | None \<Rightarrow> Inr (s\<lparr> items := (items s)(key \<mapsto> v) \<rparr>))"

definition getItem :: "string \<Rightarrow> storage \<Rightarrow> string option" where
  "getItem key s = items s key"

definition removeItem :: "string \<Rightarrow> storage \<Rightarrow> storage" where
  "removeItem key s = s\<lparr> items := (items s)(key := None) \<rparr>"

text \<open>
  \<open>settings\<close> is the React state of the provider. The console and the
  alerts shown to the user are lists, oldest first.
\<close>

datatype console_entry =
    ConsoleLog string
  | ConsoleError string js_error

record world =
  settings :: SiteSettings
  remote :: remote
  sessionStorage :: storage
  localStorage :: storage
  console :: "console_entry list"
  alerts :: "string list"

subsection \<open>Mounting: \<^verbatim>\<open>initializeSettings\<close> and the effect\<close>

text \<open>
  An \<^verbatim>\<open>async\<close> function returns \<open>Inl\<close> of the error when its promise is
  rejected and \<open>Inr\<close> of the value when it is fulfilled.
\<close>

definition initializeSettings :: "load_env \<Rightarrow> world \<Rightarrow> (js_error + unit) \<times> world" where
  "initializeSettings env w =
     (case readData ''siteSettings'' (remote w) of
        (Inl error, r) \<Rightarrow> (Inl error, w\<lparr> remote := r \<rparr>)
      | (Inr snap, r) \<Rightarrow>
          if \<not> snapshot_exists snap then
            (case writeData ''siteSettings'' (initial_document env) r of
               (Inl error, r') \<Rightarrow> (Inl error, w\<lparr> remote := r' \<rparr>)
             | (Inr _, r') \<Rightarrow>
                 (Inr (), w\<lparr> remote := r',
                            console := console w @
                              [ConsoleLog ''Initialized default settings in Firebase''] \<rparr>))
          else (Inr (), w\<lparr> remote := r \<rparr>))"

text \<open>
  The effect that runs once when the provider mounts: it starts
  \<^verbatim>\<open>initializeSettings\<close> with a \<^verbatim>\<open>catch\<close> that logs, registers the
  subscription callback (\<open>watchHandler\<close>, run by \<open>onWatchData\<close> for each
  delivered payload), and reads the two stored flags. The initializer touches
  the store and the console only, the flag checks the state only, so their
  order does not show.
\<close>

definition mountEffect :: "load_env \<Rightarrow> world \<Rightarrow> world" where
  "mountEffect env w =
     (let w1 = (case initializeSettings env w of
                  (Inl error, w') \<Rightarrow>
                    w'\<lparr> console := console w' @
                          [ConsoleError ''Error initializing settings:'' error] \<rparr>
                | (Inr _, w') \<Rightarrow> w');
          w2 = (if getItem ''siteUnlocked'' (sessionStorage w1) = Some ''true''
                then w1\<lparr> settings := (settings w1)\<lparr> isUnlocked := True \<rparr> \<rparr>
                else w1)
      in if getItem ''adminLoggedIn'' (localStorage w2) = Some ''true''
         then w2\<lparr> settings := (settings w2)\<lparr> isAdmin := True \<rparr> \<rparr>
         else w2)"

text \<open>
  A provider that mounts starts from \<^verbatim>\<open>useState(defaultSettings)\<close>, in front
  of a store and the two storages as it finds them.
\<close>

definition SiteSettingsProvider_start ::
  "load_env \<Rightarrow> remote \<Rightarrow> storage \<Rightarrow> storage \<Rightarrow> world" where
  "SiteSettingsProvider_start env r session durable =
     mountEffect env
       \<lparr> settings = defaultSettings env, remote = r,
         sessionStorage = session, localStorage = durable,
         console = [], alerts = [] \<rparr>"

definition onWatchData :: "load_env \<Rightarrow> payload option \<Rightarrow> world \<Rightarrow> world" where
  "onWatchData env data w = w\<lparr> settings := watchHandler env data (settings w) \<rparr>"

subsection \<open>\<^verbatim>\<open>unlockSite\<close>\<close>

text \<open>
  \<^verbatim>\<open>password === correctPassword\<close>: the left side is a string, the right side
  is whatever the snapshot holds. Strict equality is true when the right side
  is a string with the same characters, false for every other value.
\<close>

definition strict_eq_string :: "string \<Rightarrow> jsval \<Rightarrow> bool" where
  "strict_eq_string s v = (case v of JStr t \<Rightarrow> s = t | _ \<Rightarrow> False)"

text \<open>
  \<open>simpleToken\<close> is built from the clock and \<^verbatim>\<open>Math.random\<close>; it is a
  parameter (\<^verbatim>\<open>btoa\<close> of digits, an underscore and base-36 digits does
  not throw). Three calls inside the \<^verbatim>\<open>try\<close> block can throw: \<^verbatim>\<open>readData\<close>
  and the two \<^verbatim>\<open>sessionStorage.setItem\<close>. Each throw ends in the same
  \<^verbatim>\<open>catch\<close>, which logs and returns false; what was stored before the
  throw stays stored.
\<close>

definition unlockSite :: "string \<Rightarrow> string \<Rightarrow> world \<Rightarrow> (js_error + bool) \<times> world" where
  "unlockSite simpleToken pwd w =
     (case readData ''siteSettings/passwordProtection/password'' (remote w) of
        (Inl error, r) \<Rightarrow>
          (Inr False,
           w\<lparr> remote := r,
              console := console w @
                [ConsoleError ''Error unlocking site with Firebase:'' error] \<rparr>)
      | (Inr snap, r) \<Rightarrow>
          (let correctPassword = snapshot_val snap
           in if strict_eq_string pwd correctPassword then
                (case setItem ''siteUnlocked'' ''true'' (sessionStorage w) of
                   Inl error \<Rightarrow>
                     (Inr False,
                      w\<lparr> remote := r,
                         console := console w @
                           [ConsoleError ''Error unlocking site with Firebase:'' error] \<rparr>)
                 | Inr s1 \<Rightarrow>
                     (case setItem ''authToken'' simpleToken s1 of
                        Inl error \<Rightarrow>
                          (Inr False,
                           w\<lparr> remote := r,
                              sessionStorage := s1,
                              console := console w @
                                [ConsoleError ''Error unlocking site with Firebase:'' error] \<rparr>)
                      | Inr s2 \<Rightarrow>
                          (Inr True,
                           w\<lparr> remote := r,
                              sessionStorage := s2,
                              settings := (settings w)\<lparr> isUnlocked := True \<rparr> \<rparr>)))
              else (Inr False, w\<lparr> remote := r \<rparr>)))"

subsection \<open>\<^verbatim>\<open>togglePasswordProtection\<close> and \<^verbatim>\<open>changePassword\<close>\<close>

definition togglePasswordProtection :: "bool \<Rightarrow> world \<Rightarrow> (js_error + unit) \<times> world" where
  "togglePasswordProtection enabled w =
     (case writeData ''siteSettings/passwordProtection/enabled'' (JBool enabled) (remote w) of
        (Inr _, r) \<Rightarrow>
          (Inr (),
           w\<lparr> remote := r,
              console := console w @
                [ConsoleLog (''Password protection '' @
                             (if enabled then ''enabled'' else ''disabled'') @
                             '' in Firebase'')],
              settings := (settings w)
                \<lparr> passwordProtection :=
                    (passwordProtection (settings w))\<lparr> pp_enabled := enabled \<rparr> \<rparr> \<rparr>)
      | (Inl error, r) \<Rightarrow>
          (Inr (),
           w\<lparr> remote := r,
              console := console w @
                [ConsoleError ''Error toggling password protection:'' error],
              alerts := alerts w @
                [''Error updating password protection setting. Please try again.''] \<rparr>))"

definition changePassword :: "string \<Rightarrow> world \<Rightarrow> (js_error + unit) \<times> world" where
  "changePassword newPassword w =
     (let c1 = console w @ [ConsoleLog (''Updating password in Firebase to: '' @ newPassword)]
      in case writeData ''siteSettings/passwordProtection/password'' (JStr newPassword) (remote w) of
           (Inr _, r) \<Rightarrow>
             (Inr (),
              w\<lparr> remote := r,
                 console := c1 @ [ConsoleLog ''Password updated in Firebase''],
                 settings := (settings w)
                   \<lparr> passwordProtection :=
                       (passwordProtection (settings w))\<lparr> password := newPassword \<rparr> \<rparr>,
                 alerts := alerts w @ [''Password updated successfully!''] \<rparr>)
         | (Inl error, r) \<Rightarrow>
             (Inr (),
              w\<lparr> remote := r,
                 console := c1 @ [ConsoleError ''Error changing password:'' error],
                 alerts := alerts w @ [''Error changing password. Please try again.''] \<rparr>))"

subsection \<open>The three partial updates\<close>

text \<open>
  \<^verbatim>\<open>{...current, ...newSettings}\<close>: a key of \<open>newSettings\<close> replaces the
  current value, a key it does not have leaves it.
\<close>

definition spread_CountdownSettings ::
  "CountdownSettings \<Rightarrow> CountdownSettings_partial \<Rightarrow> CountdownSettings" where
  "spread_CountdownSettings cur new =
     \<lparr> cd_enabled = or_default (cd_enabled_opt new) (cd_enabled cur),
       targetDate = or_default (targetDate_opt new) (targetDate cur),
       title = or_default (title_opt new) (title cur) \<rparr>"

definition spread_ShippingSettings ::
  "ShippingSettings \<Rightarrow> ShippingSettings_partial \<Rightarrow> ShippingSettings" where
  "spread_ShippingSettings cur new =
     \<lparr> provinces = or_default (provinces_opt new) (provinces cur),
       freeShippingThreshold =
         or_default (freeShippingThreshold_opt new) (freeShippingThreshold cur),
       minPrice = or_default (minPrice_opt new) (minPrice cur),
       maxPrice = or_default (maxPrice_opt new) (maxPrice cur) \<rparr>"

definition spread_SocialMediaSettings ::
  "SocialMediaSettings \<Rightarrow> SocialMediaSettings_partial \<Rightarrow> SocialMediaSettings" where
  "spread_SocialMediaSettings cur new =
     \<lparr> instagram = or_default (instagram_opt new) (instagram cur),
       twitter = or_default (twitter_opt new) (twitter cur),
       facebook = or_default (facebook_opt new) (facebook cur),
       youtube = or_default (youtube_opt new) (youtube cur),
       tiktok = or_default (tiktok_opt new) (tiktok cur),
       sm_enabled = or_default (sm_enabled_opt new) (sm_enabled cur) \<rparr>"

text \<open>
  The three functions read \<^verbatim>\<open>settings.countdownSettings\<close>,
  \<^verbatim>\<open>settings.shippingSettings\<close> and \<^verbatim>\<open>settings.socialMedia\<close> from the
  variable \<^verbatim>\<open>settings\<close> of the render that created them: \<open>rendered\<close>, a
  parameter. It is the current state when the function is called from the
  latest render, and an older state when it is called again through a
  reference taken before the state changed. The state update
  \<^verbatim>\<open>setSettings(prev => ...)\<close> starts from the current state.

  None of the three has a \<^verbatim>\<open>try\<close>: when \<^verbatim>\<open>await writeData(...)\<close> throws,
  the function's promise is rejected with that error and the statements after
  the \<^verbatim>\<open>await\<close> do not run.
\<close>

definition updateCountdownSettings ::
  "SiteSettings \<Rightarrow> CountdownSettings_partial \<Rightarrow> world \<Rightarrow> (js_error + unit) \<times> world" where
  "updateCountdownSettings rendered newSettings w =
     (let updatedSettings = spread_CountdownSettings (countdownSettings rendered) newSettings
      in case writeData ''siteSettings/countdownSettings''
                (js_CountdownSettings updatedSettings) (remote w) of
           (Inl error, r) \<Rightarrow> (Inl error, w\<lparr> remote := r \<rparr>)
         | (Inr _, r) \<Rightarrow>
             (Inr (),
              w\<lparr> remote := r,
                 settings := (settings w)\<lparr> countdownSettings := updatedSettings \<rparr> \<rparr>))"

definition updateShippingSettings ::
  "SiteSettings \<Rightarrow> ShippingSettings_partial \<Rightarrow> world \<Rightarrow> (js_error + unit) \<times> world" where
  "updateShippingSettings rendered newSettings w =
     (let updatedSettings = spread_ShippingSettings (shippingSettings rendered) newSettings
      in case writeData ''siteSettings/shippingSettings''
                (js_ShippingSettings updatedSettings) (remote w) of
           (Inl error, r) \<Rightarrow> (Inl error, w\<lparr> remote := r \<rparr>)
         | (Inr _, r) \<Rightarrow>
             (Inr (),
              w\<lparr> remote := r,
                 settings := (settings w)\<lparr> shippingSettings := updatedSettings \<rparr> \<rparr>))"

definition updateSocialMediaSettings ::
  "SiteSettings \<Rightarrow> SocialMediaSettings_partial \<Rightarrow> world \<Rightarrow> (js_error + unit) \<times> world" where
  "updateSocialMediaSettings rendered newSettings w =
     (let updatedSettings = spread_SocialMediaSettings (socialMedia rendered) newSettings
      in case writeData ''siteSettings/socialMedia''
                (js_SocialMediaSettings updatedSettings) (remote w) of
           (Inl error, r) \<Rightarrow> (Inl error, w\<lparr> remote := r \<rparr>)
         | (Inr _, r) \<Rightarrow>
             (Inr (),
              w\<lparr> remote := r,
                 settings := (settings w)\<lparr> socialMedia := updatedSettings \<rparr> \<rparr>))"

subsection \<open>\<^verbatim>\<open>adminLogin\<close> and \<^verbatim>\<open>adminLogout\<close>\<close>

text \<open>
  The one call in the \<^verbatim>\<open>try\<close> block of \<^verbatim>\<open>adminLogin\<close> that can throw is
  \<^verbatim>\<open>localStorage.setItem\<close>; the \<^verbatim>\<open>catch\<close> logs and returns false.
\<close>

definition adminLogin :: "string \<Rightarrow> string \<Rightarrow> world \<Rightarrow> (js_error + bool) \<times> world" where
  "adminLogin email pwd w =
     (if email = ''admin@example.com'' \<and> pwd = ''admin123'' then
        (case setItem ''adminLoggedIn'' ''true'' (localStorage w) of
           Inr s \<Rightarrow>
             (Inr True,
              w\<lparr> localStorage := s,
                 settings := (settings w)\<lparr> isAdmin := True \<rparr> \<rparr>)
         | Inl error \<Rightarrow>
             (Inr False,
              w\<lparr> console := console w @ [ConsoleError ''Admin login error:'' error] \<rparr>))
      else (Inr False, w))"

definition adminLogout :: "world \<Rightarrow> world" where
  "adminLogout w =
     w\<lparr> localStorage := removeItem ''adminLoggedIn'' (localStorage w),
        settings := (settings w)\<lparr> isAdmin := False \<rparr> \<rparr>"

section \<open>Concrete stores and states\<close>

text \<open>
  A module environment, a customised state, a store that holds a password
  different from the one in the local state, a store whose every call fails,
  an empty storage that accepts every item, one that refuses every item,
  one that refuses only \<^verbatim>\<open>authToken\<close>, and the partial objects
  \<^verbatim>\<open>{minPrice: 400}\<close> and \<^verbatim>\<open>{maxPrice: 900}\<close>. The theorems below are
  instantiated at these.
\<close>

definition example_env :: load_env where
  "example_env =
     \<lparr> seven_days_from_now = ''2026-01-08T00:00:00.000Z'',
       shippingProvinces = [JObj [(''name'', JStr ''Alger''), (''price'', JNum 400)]] \<rparr>"

definition example_settings :: SiteSettings where
  "example_settings =
     \<lparr> countdownSettings =
         \<lparr> cd_enabled = False, targetDate = ''2025-12-31T23:00:00.000Z'', title = ''Winter Drop'' \<rparr>,
       passwordProtection = \<lparr> pp_enabled = True, password = ''old-cached'' \<rparr>,
       shippingSettings =
         \<lparr> provinces = [JObj [(''name'', JStr ''Oran'')]],
           freeShippingThreshold = 5000, minPrice = 300, maxPrice = 800 \<rparr>,
       socialMedia =
         \<lparr> instagram = ''https://instagram.com/shop'', twitter = [], facebook = [],
           youtube = [], tiktok = [], sm_enabled = False \<rparr>,
       isUnlocked = False, isAdmin = False, isLoading = False, currency = ''DZD'' \<rparr>"

definition example_remote :: remote where
  "example_remote =
     \<lparr> root = JObj [(''siteSettings'',
                     JObj [(''passwordProtection'',
                            JObj [(''enabled'', JBool True),
                                  (''password'', JStr ''open-sesame'')])])],
       read_fault = (\<lambda>path. None),
       write_fault = (\<lambda>path. None),
       calls = [] \<rparr>"

definition offline_remote :: remote where
  "offline_remote =
     example_remote\<lparr> read_fault := (\<lambda>path. Some ''network error''),
                     write_fault := (\<lambda>path. Some ''network error'') \<rparr>"

definition empty_remote :: remote where
  "empty_remote = example_remote\<lparr> root := JNull \<rparr>"

definition empty_storage :: storage where
  "empty_storage = \<lparr> items = Map.empty, setItem_fault = (\<lambda>key. None) \<rparr>"

definition full_storage :: storage where
  "full_storage =
     \<lparr> items = Map.empty, setItem_fault = (\<lambda>key. Some ''QuotaExceededError'') \<rparr>"

definition token_refusing_storage :: storage where
  "token_refusing_storage =
     \<lparr> items = Map.empty,
       setItem_fault = (\<lambda>key. if key = ''authToken'' then Some ''QuotaExceededError''
                               else None) \<rparr>"

definition example_world :: world where
  "example_world =
     \<lparr> settings = example_settings, remote = example_remote,
       sessionStorage = empty_storage, localStorage = empty_storage,
       console = [], alerts = [] \<rparr>"

definition offline_world :: world where
  "offline_world = example_world\<lparr> remote := offline_remote \<rparr>"



definition quota_world :: world where
  "quota_world =
     example_world\<lparr> sessionStorage := full_storage, localStorage := full_storage \<rparr>"

section \<open>Facts about the store\<close>

lemma jget_jset_same: "jget (jset t p v) p = v"
proof (induction p arbitrary: t)
  case Nil
  show ?case by simp
next
  case (Cons k ks)
  show ?case
  proof (cases t)
    case (JObj kvs)
    then show ?thesis using Cons by (simp add: update_conv')
  qed (simp_all add: Cons)
qed

lemma path_keys_siteSettings: "path_keys ''siteSettings'' = [''siteSettings'']"
  by (simp add: path_keys_def)

lemma path_keys_password:
  "path_keys ''siteSettings/passwordProtection/password'' =
     [''siteSettings'', ''passwordProtection'', ''password'']"
  by (simp add: path_keys_def)

lemma path_keys_enabled:
  "path_keys ''siteSettings/passwordProtection/enabled'' =
     [''siteSettings'', ''passwordProtection'', ''enabled'']"
  by (simp add: path_keys_def)




lemma readData_ok:
  "read_fault r path = None \<Longrightarrow>
   readData path r =
     (Inr (Snapshot (jget (root r) (path_keys path))), r\<lparr> calls := calls r @ [ReadCall path] \<rparr>)"
  by (simp add: readData_def)

lemma readData_fail:
  "read_fault r path = Some e \<Longrightarrow>
   readData path r = (Inl e, r\<lparr> calls := calls r @ [ReadCall path] \<rparr>)"
  by (simp add: readData_def)

lemma writeData_ok:
  "write_fault r path = None \<Longrightarrow>
   writeData path v r =
     (Inr (), r\<lparr> root := jset (root r) (path_keys path) v,
                 calls := calls r @ [WriteCall path v] \<rparr>)"
  by (simp add: writeData_def)

lemma writeData_fail:
  "write_fault r path = Some e \<Longrightarrow>
   writeData path v r = (Inl e, r\<lparr> calls := calls r @ [WriteCall path v] \<rparr>)"
  by (simp add: writeData_def)

lemma setItem_ok:
  "setItem_fault s key = None \<Longrightarrow>
   setItem key v s = Inr (s\<lparr> items := (items s)(key \<mapsto> v) \<rparr>)"
  by (simp add: setItem_def)

lemma setItem_fail: "setItem_fault s key = Some e \<Longrightarrow> setItem key v s = Inl e"
  by (simp add: setItem_def)

lemma example_world_simps:
  "settings example_world = example_settings"
  "remote example_world = example_remote"
  "sessionStorage example_world = empty_storage"
  "localStorage example_world = empty_storage"
  "console example_world = []"
  "alerts example_world = []"
  by (simp_all add: example_world_def)

lemma offline_world_simps:
  "settings offline_world = example_settings"
  "remote offline_world = offline_remote"
  "sessionStorage offline_world = empty_storage"
  "localStorage offline_world = empty_storage"
  "console offline_world = []"
  "alerts offline_world = []"
  by (simp_all add: offline_world_def example_world_def)

lemma quota_world_simps:
  "settings quota_world = example_settings"
  "remote quota_world = example_remote"
  "sessionStorage quota_world = full_storage"
  "localStorage quota_world = full_storage"
  "console quota_world = []"
  "alerts quota_world = []"
  by (simp_all add: quota_world_def example_world_def)

lemma storage_simps:
  "setItem_fault empty_storage key = None"
  "items empty_storage = Map.empty"
  "setItem_fault full_storage key = Some ''QuotaExceededError''"
  "items full_storage = Map.empty"
  "setItem_fault token_refusing_storage ''siteUnlocked'' = None"
  "setItem_fault token_refusing_storage ''authToken'' = Some ''QuotaExceededError''"
  "items token_refusing_storage = Map.empty"
  by (simp_all add: empty_storage_def full_storage_def token_refusing_storage_def)

lemma example_remote_simps:
  "read_fault example_remote path = None"
  "write_fault example_remote path = None"
  "calls example_remote = []"
  "jget (root example_remote) [''siteSettings'', ''passwordProtection'', ''password''] =
     JStr ''open-sesame''"
  by (simp_all add: example_remote_def)

lemma offline_remote_simps:
  "read_fault offline_remote path = Some ''network error''"
  "write_fault offline_remote path = Some ''network error''"
  "calls offline_remote = []"
  "root offline_remote = root example_remote"
  by (simp_all add: offline_remote_def example_remote_def)

lemma empty_remote_simps:
  "read_fault empty_remote path = None"
  "write_fault empty_remote path = None"
  "calls empty_remote = []"
  "root empty_remote = JNull"
  by (simp_all add: empty_remote_def example_remote_def)

section \<open>The hook outside its provider\<close>

text \<open>
  C9. A call of \<^verbatim>\<open>useSiteSettings\<close> with no provider active (the context
  value is \<^verbatim>\<open>undefined\<close>) throws the error at once; it returns no value.
\<close>

theorem useSiteSettings_outside_provider:
  "useSiteSettings (None :: 'ctx option) =
     Inl ''useSiteSettings must be used within a SiteSettingsProvider''
   \<and> (\<forall>c :: 'ctx. useSiteSettings None \<noteq> Inr c)"
  by (simp add: useSiteSettings_def)

section \<open>Live updates\<close>

text \<open>
  C10. When the subscription delivers \<^verbatim>\<open>null\<close> for the whole document, the
  callback substitutes no default and clears nothing: the four sub-objects,
  the two gate flags and the currency keep their values, and \<open>isLoading\<close>
  becomes false.
\<close>

theorem watchHandler_null_payload:
  "watchHandler env None prev = prev\<lparr> isLoading := False \<rparr>
   \<and> countdownSettings (watchHandler env None prev) = countdownSettings prev
   \<and> passwordProtection (watchHandler env None prev) = passwordProtection prev
   \<and> shippingSettings (watchHandler env None prev) = shippingSettings prev
   \<and> socialMedia (watchHandler env None prev) = socialMedia prev
   \<and> isUnlocked (watchHandler env None prev) = isUnlocked prev
   \<and> isAdmin (watchHandler env None prev) = isAdmin prev
   \<and> currency (watchHandler env None prev) = currency prev
   \<and> isLoading (watchHandler env None prev) = False"
  by (simp add: watchHandler_def)

text \<open>
  C3. For a payload that is not \<^verbatim>\<open>null\<close> and each of the four sub-objects:
  when the payload does not have the sub-object, the merged state holds the
  default for it. The callback also sets \<open>isLoading\<close> to false.
\<close>

theorem watchHandler_missing_subobject_default:
  "(pl_countdownSettings d = None \<longrightarrow>
      countdownSettings (watchHandler env (Some d) prev) = countdownSettings (defaultSettings env))
   \<and> (pl_passwordProtection d = None \<longrightarrow>
      passwordProtection (watchHandler env (Some d) prev) = passwordProtection (defaultSettings env))
   \<and> (pl_shippingSettings d = None \<longrightarrow>
      shippingSettings (watchHandler env (Some d) prev) = shippingSettings (defaultSettings env))
   \<and> (pl_socialMedia d = None \<longrightarrow>
      socialMedia (watchHandler env (Some d) prev) = socialMedia (defaultSettings env))
   \<and> isLoading (watchHandler env (Some d) prev) = False"
  by (simp add: watchHandler_def or_default_def)

theorem watchHandler_missing_subobject_default_witness:
  "watchHandler example_env
     (Some \<lparr> pl_countdownSettings = None, pl_passwordProtection = None,
             pl_shippingSettings = None, pl_socialMedia = None \<rparr>)
     example_settings =
   (defaultSettings example_env)\<lparr> isLoading := False \<rparr>"
  using watchHandler_missing_subobject_default
    [of "\<lparr> pl_countdownSettings = None, pl_passwordProtection = None,
           pl_shippingSettings = None, pl_socialMedia = None \<rparr>"
        example_env example_settings]
  by (simp add: watchHandler_def defaultSettings_def example_settings_def)

section \<open>Unlocking the site\<close>

lemma strict_eq_string_iff: "strict_eq_string s v \<longleftrightarrow> v = JStr s"
  by (cases v) (auto simp: strict_eq_string_def)

lemma unlockSite_mismatch:
  "read_fault (remote w) ''siteSettings/passwordProtection/password'' = None \<Longrightarrow>
   jget (root (remote w)) [''siteSettings'', ''passwordProtection'', ''password''] \<noteq> JStr p \<Longrightarrow>
   unlockSite tok p w =
     (Inr False,
      w\<lparr> remote := (remote w)
           \<lparr> calls := calls (remote w) @
                [ReadCall ''siteSettings/passwordProtection/password''] \<rparr> \<rparr>)"
  by (simp add: unlockSite_def readData_ok snapshot_val_def strict_eq_string_iff
        path_keys_password)

lemma unlockSite_read_failure:
  "read_fault (remote w) ''siteSettings/passwordProtection/password'' = Some e \<Longrightarrow>
   unlockSite tok p w =
     (Inr False,
      w\<lparr> remote := (remote w)
           \<lparr> calls := calls (remote w) @
                [ReadCall ''siteSettings/passwordProtection/password''] \<rparr>,
         console := console w @ [ConsoleError ''Error unlocking site with Firebase:'' e] \<rparr>)"
  by (simp add: unlockSite_def readData_fail)

lemma unlockSite_success:
  "read_fault (remote w) ''siteSettings/passwordProtection/password'' = None \<Longrightarrow>
   jget (root (remote w)) [''siteSettings'', ''passwordProtection'', ''password''] = JStr p \<Longrightarrow>
   setItem_fault (sessionStorage w) ''siteUnlocked'' = None \<Longrightarrow>
   setItem_fault (sessionStorage w) ''authToken'' = None \<Longrightarrow>
   unlockSite tok p w =
     (Inr True,
      w\<lparr> remote := (remote w)
           \<lparr> calls := calls (remote w) @
                [ReadCall ''siteSettings/passwordProtection/password''] \<rparr>,
         sessionStorage := (sessionStorage w)
           \<lparr> items := (items (sessionStorage w))
                (''siteUnlocked'' \<mapsto> ''true'', ''authToken'' \<mapsto> tok) \<rparr>,
         settings := (settings w)\<lparr> isUnlocked := True \<rparr> \<rparr>)"
  by (simp add: unlockSite_def readData_ok snapshot_val_def strict_eq_string_iff
        path_keys_password setItem_def)

lemma unlockSite_flag_refused:
  "read_fault (remote w) ''siteSettings/passwordProtection/password'' = None \<Longrightarrow>
   jget (root (remote w)) [''siteSettings'', ''passwordProtection'', ''password''] = JStr p \<Longrightarrow>
   setItem_fault (sessionStorage w) ''siteUnlocked'' = Some e \<Longrightarrow>
   unlockSite tok p w =
     (Inr False,
      w\<lparr> remote := (remote w)
           \<lparr> calls := calls (remote w) @
                [ReadCall ''siteSettings/passwordProtection/password''] \<rparr>,
         console := console w @ [ConsoleError ''Error unlocking site with Firebase:'' e] \<rparr>)"
  by (simp add: unlockSite_def readData_ok snapshot_val_def strict_eq_string_iff
        path_keys_password setItem_def)

lemma unlockSite_token_refused:
  "read_fault (remote w) ''siteSettings/passwordProtection/password'' = None \<Longrightarrow>
   jget (root (remote w)) [''siteSettings'', ''passwordProtection'', ''password''] = JStr p \<Longrightarrow>
   setItem_fault (sessionStorage w) ''siteUnlocked'' = None \<Longrightarrow>
   setItem_fault (sessionStorage w) ''authToken'' = Some e \<Longrightarrow>
   unlockSite tok p w =
     (Inr False,
      w\<lparr> remote := (remote w)
           \<lparr> calls := calls (remote w) @
                [ReadCall ''siteSettings/passwordProtection/password''] \<rparr>,
         sessionStorage := (sessionStorage w)
           \<lparr> items := (items (sessionStorage w))(''siteUnlocked'' \<mapsto> ''true'') \<rparr>,
         console := console w @ [ConsoleError ''Error unlocking site with Firebase:'' e] \<rparr>)"
  by (simp add: unlockSite_def readData_ok snapshot_val_def strict_eq_string_iff
        path_keys_password setItem_def)

lemma unlockSite_cases:
  obtains (success) "read_fault (remote w) ''siteSettings/passwordProtection/password'' = None"
      "jget (root (remote w)) [''siteSettings'', ''passwordProtection'', ''password''] = JStr p"
      "setItem_fault (sessionStorage w) ''siteUnlocked'' = None"
      "setItem_fault (sessionStorage w) ''authToken'' = None"
  | (flag_refused) e where
      "read_fault (remote w) ''siteSettings/passwordProtection/password'' = None"
      "jget (root (remote w)) [''siteSettings'', ''passwordProtection'', ''password''] = JStr p"
      "setItem_fault (sessionStorage w) ''siteUnlocked'' = Some e"
  | (token_refused) e where
      "read_fault (remote w) ''siteSettings/passwordProtection/password'' = None"
      "jget (root (remote w)) [''siteSettings'', ''passwordProtection'', ''password''] = JStr p"
      "setItem_fault (sessionStorage w) ''siteUnlocked'' = None"
      "setItem_fault (sessionStorage w) ''authToken'' = Some e"
  | (mismatch) "read_fault (remote w) ''siteSettings/passwordProtection/password'' = None"
      "jget (root (remote w)) [''siteSettings'', ''passwordProtection'', ''password''] \<noteq> JStr p"
  | (failure) e where "read_fault (remote w) ''siteSettings/passwordProtection/password'' = Some e"
  by (cases "read_fault (remote w) ''siteSettings/passwordProtection/password''";
      cases "setItem_fault (sessionStorage w) ''siteUnlocked''";
      cases "setItem_fault (sessionStorage w) ''authToken''") auto

lemma readData_password_value:
  "fst (readData ''siteSettings/passwordProtection/password'' r) = Inr (Snapshot (JStr p)) \<longleftrightarrow>
     read_fault r ''siteSettings/passwordProtection/password'' = None \<and>
     jget (root r) [''siteSettings'', ''passwordProtection'', ''password''] = JStr p"
  by (cases "read_fault r ''siteSettings/passwordProtection/password''")
     (simp_all add: readData_def path_keys_password)

lemma unlockSite_result:
  "fst (unlockSite tok p w) =
     Inr (fst (readData ''siteSettings/passwordProtection/password'' (remote w)) =
            Inr (Snapshot (JStr p))
          \<and> setItem_fault (sessionStorage w) ''siteUnlocked'' = None
          \<and> setItem_fault (sessionStorage w) ''authToken'' = None)"
proof (cases rule: unlockSite_cases [of w p])
  case success
  then show ?thesis by (simp add: unlockSite_success readData_password_value)
next
  case (flag_refused e)
  then show ?thesis by (simp add: unlockSite_flag_refused)
next
  case (token_refused e)
  then show ?thesis by (simp add: unlockSite_token_refused)
next
  case mismatch
  then show ?thesis by (simp add: unlockSite_mismatch readData_password_value)
next
  case (failure e)
  then show ?thesis by (simp add: unlockSite_read_failure readData_password_value)
qed

lemma unlockSite_not_true_frame:
  assumes "fst (unlockSite tok p w) \<noteq> Inr True"
  shows "fst (unlockSite tok p w) = Inr False
        \<and> settings (snd (unlockSite tok p w)) = settings w
        \<and> localStorage (snd (unlockSite tok p w)) = localStorage w
        \<and> root (remote (snd (unlockSite tok p w))) = root (remote w)
        \<and> alerts (snd (unlockSite tok p w)) = alerts w"
proof (cases rule: unlockSite_cases [of w p])
  case success
  then show ?thesis using assms by (simp add: unlockSite_success)
next
  case (flag_refused e)
  then show ?thesis by (simp add: unlockSite_flag_refused)
next
  case (token_refused e)
  then show ?thesis by (simp add: unlockSite_token_refused)
next
  case mismatch
  then show ?thesis by (simp add: unlockSite_mismatch)
next
  case (failure e)
  then show ?thesis by (simp add: unlockSite_read_failure)
qed

lemma unlockSite_no_match_session:
  assumes "fst (readData ''siteSettings/passwordProtection/password'' (remote w)) \<noteq>
             Inr (Snapshot (JStr p))"
  shows "sessionStorage (snd (unlockSite tok p w)) = sessionStorage w"
proof (cases rule: unlockSite_cases [of w p])
  case success
  then show ?thesis using assms by (simp add: readData_password_value)
next
  case (flag_refused e)
  then show ?thesis using assms by (simp add: readData_password_value)
next
  case (token_refused e)
  then show ?thesis using assms by (simp add: readData_password_value)
next
  case mismatch
  then show ?thesis by (simp add: unlockSite_mismatch)
next
  case (failure e)
  then show ?thesis by (simp add: unlockSite_read_failure)
qed

text \<open>
  C1, as the code has it. \<open>unlockSite p\<close> returns true exactly when the read
  of \<^verbatim>\<open>siteSettings/passwordProtection/password\<close> made by this call returns
  the string \<open>p\<close> and session storage accepts both items; otherwise it
  returns false. In particular the password kept in the local state is
  refused when the store no longer holds it, and the empty string is refused
  unless the store holds the empty string.
\<close>

theorem unlockSite_true_iff_remote_password_and_stored:
  "(fst (unlockSite tok p w) = Inr True \<longleftrightarrow>
      fst (readData ''siteSettings/passwordProtection/password'' (remote w)) =
        Inr (Snapshot (JStr p))
      \<and> setItem_fault (sessionStorage w) ''siteUnlocked'' = None
      \<and> setItem_fault (sessionStorage w) ''authToken'' = None)
   \<and> (fst (unlockSite tok p w) = Inr True \<or> fst (unlockSite tok p w) = Inr False)
   \<and> (password (passwordProtection (settings w)) = p \<and>
        fst (readData ''siteSettings/passwordProtection/password'' (remote w)) \<noteq>
          Inr (Snapshot (JStr p)) \<longrightarrow>
      fst (unlockSite tok p w) = Inr False)
   \<and> (fst (readData ''siteSettings/passwordProtection/password'' (remote w)) \<noteq>
          Inr (Snapshot (JStr [])) \<longrightarrow>
      fst (unlockSite tok [] w) = Inr False)"
  by (auto simp add: unlockSite_result)

theorem unlockSite_true_iff_remote_password_and_stored_witness:
  "fst (unlockSite ''t0k'' ''open-sesame'' example_world) = Inr True
   \<and> password (passwordProtection (settings example_world)) = ''old-cached''
   \<and> fst (unlockSite ''t0k'' ''old-cached'' example_world) = Inr False
   \<and> fst (unlockSite ''t0k'' [] example_world) = Inr False
   \<and> fst (unlockSite ''t0k'' [] (example_world\<lparr> remote := empty_remote \<rparr>)) = Inr False"
proof -
  have rd: "fst (readData ''siteSettings/passwordProtection/password'' example_remote) =
              Inr (Snapshot (JStr ''open-sesame''))"
    by (rule readData_password_value [THEN iffD2]) (simp add: example_remote_simps)
  have rd0: "fst (readData ''siteSettings/passwordProtection/password'' empty_remote) \<noteq>
               Inr (Snapshot (JStr []))"
    by (simp add: readData_password_value empty_remote_simps)
  have a: "fst (unlockSite ''t0k'' ''open-sesame'' example_world) = Inr True"
    by (rule unlockSite_true_iff_remote_password_and_stored [THEN conjunct1, THEN iffD2])
       (simp add: rd example_world_simps storage_simps)
  have b: "fst (unlockSite ''t0k'' ''old-cached'' example_world) = Inr False"
    by (rule unlockSite_true_iff_remote_password_and_stored
          [THEN conjunct2, THEN conjunct2, THEN conjunct1, THEN mp])
       (simp add: rd example_world_simps example_settings_def)
  have c: "fst (unlockSite ''t0k'' [] example_world) = Inr False"
    by (rule unlockSite_true_iff_remote_password_and_stored
          [THEN conjunct2, THEN conjunct2, THEN conjunct2, THEN mp])
       (simp add: rd example_world_simps)
  have d: "fst (unlockSite ''t0k'' [] (example_world\<lparr> remote := empty_remote \<rparr>)) = Inr False"
    by (rule unlockSite_true_iff_remote_password_and_stored
          [THEN conjunct2, THEN conjunct2, THEN conjunct2, THEN mp])
       (simp add: rd0)
  show ?thesis
    by (simp add: a b c d example_world_simps example_settings_def)
qed

text \<open>
  Against C1 as stated: where session storage refuses an item, the submitted
  string is the password that the store returns, and the result is false.
  When only the second item is refused, the first one stays stored.
\<close>

theorem unlockSite_true_iff_remote_password_counterexample:
  "fst (readData ''siteSettings/passwordProtection/password'' (remote quota_world)) =
     Inr (Snapshot (JStr ''open-sesame''))
   \<and> fst (unlockSite ''t0k'' ''open-sesame'' quota_world) = Inr False
   \<and> console (snd (unlockSite ''t0k'' ''open-sesame'' quota_world)) =
       [ConsoleError ''Error unlocking site with Firebase:'' ''QuotaExceededError'']
   \<and> fst (unlockSite ''t0k'' ''open-sesame''
            (example_world\<lparr> sessionStorage := token_refusing_storage \<rparr>)) = Inr False
   \<and> items (sessionStorage (snd (unlockSite ''t0k'' ''open-sesame''
            (example_world\<lparr> sessionStorage := token_refusing_storage \<rparr>)))) ''siteUnlocked'' =
       Some ''true''"
proof -
  have q: "unlockSite ''t0k'' ''open-sesame'' quota_world =
     (Inr False,
      quota_world\<lparr> remote := (remote quota_world)
           \<lparr> calls := calls (remote quota_world) @
                [ReadCall ''siteSettings/passwordProtection/password''] \<rparr>,
         console := console quota_world @
           [ConsoleError ''Error unlocking site with Firebase:'' ''QuotaExceededError''] \<rparr>)"
    by (rule unlockSite_flag_refused)
       (simp_all add: quota_world_simps example_remote_simps storage_simps)
  have t: "unlockSite ''t0k'' ''open-sesame''
             (example_world\<lparr> sessionStorage := token_refusing_storage \<rparr>) =
     (Inr False,
      (example_world\<lparr> sessionStorage := token_refusing_storage \<rparr>)
        \<lparr> remote := (remote (example_world\<lparr> sessionStorage := token_refusing_storage \<rparr>))
           \<lparr> calls := calls (remote (example_world\<lparr> sessionStorage := token_refusing_storage \<rparr>)) @
                [ReadCall ''siteSettings/passwordProtection/password''] \<rparr>,
          sessionStorage :=
            (sessionStorage (example_world\<lparr> sessionStorage := token_refusing_storage \<rparr>))
             \<lparr> items := (items (sessionStorage
                  (example_world\<lparr> sessionStorage := token_refusing_storage \<rparr>)))
                  (''siteUnlocked'' \<mapsto> ''true'') \<rparr>,
          console := console (example_world\<lparr> sessionStorage := token_refusing_storage \<rparr>) @
            [ConsoleError ''Error unlocking site with Firebase:'' ''QuotaExceededError''] \<rparr>)"
    by (rule unlockSite_token_refused)
       (simp_all add: example_world_simps example_remote_simps storage_simps)
  have r: "fst (readData ''siteSettings/passwordProtection/password'' example_remote) =
     Inr (Snapshot (JStr ''open-sesame''))"
    by (rule readData_password_value [THEN iffD2]) (simp add: example_remote_simps)
  show ?thesis
    unfolding q t by (simp add: r quota_world_simps)
qed

text \<open>
  C8. When the submitted password differs from the value read, \<open>unlockSite\<close>
  returns false and the only change is the record of the read: state, session
  storage, local storage, console and alerts are as before. When the read
  fails, it returns false (the promise is fulfilled, not rejected), logs the
  error on the console and changes nothing else. Whenever the result is not
  true, the state, local storage, the store's content and the alerts are
  untouched; session storage is untouched whenever the value read is not the
  submitted string.
\<close>

theorem unlockSite_fails_closed:
  "(read_fault (remote w) ''siteSettings/passwordProtection/password'' = None \<and>
    jget (root (remote w)) [''siteSettings'', ''passwordProtection'', ''password''] \<noteq> JStr p \<longrightarrow>
      unlockSite tok p w =
        (Inr False,
         w\<lparr> remote := (remote w)
              \<lparr> calls := calls (remote w) @
                   [ReadCall ''siteSettings/passwordProtection/password''] \<rparr> \<rparr>))
   \<and> (read_fault (remote w) ''siteSettings/passwordProtection/password'' = Some e \<longrightarrow>
      unlockSite tok p w =
        (Inr False,
         w\<lparr> remote := (remote w)
              \<lparr> calls := calls (remote w) @
                   [ReadCall ''siteSettings/passwordProtection/password''] \<rparr>,
            console := console w @ [ConsoleError ''Error unlocking site with Firebase:'' e] \<rparr>))
   \<and> (fst (unlockSite tok p w) \<noteq> Inr True \<longrightarrow>
        fst (unlockSite tok p w) = Inr False
        \<and> settings (snd (unlockSite tok p w)) = settings w
        \<and> localStorage (snd (unlockSite tok p w)) = localStorage w
        \<and> root (remote (snd (unlockSite tok p w))) = root (remote w)
        \<and> alerts (snd (unlockSite tok p w)) = alerts w)
   \<and> (fst (readData ''siteSettings/passwordProtection/password'' (remote w)) \<noteq>
          Inr (Snapshot (JStr p)) \<longrightarrow>
        sessionStorage (snd (unlockSite tok p w)) = sessionStorage w)"
  (is "?mismatch \<and> ?failure \<and> ?frame \<and> ?session")
proof -
  have m: ?mismatch by (intro impI, elim conjE, rule unlockSite_mismatch)
  have f: ?failure by (intro impI, rule unlockSite_read_failure)
  have n: ?frame by (intro impI, rule unlockSite_not_true_frame)
  have s: ?session by (intro impI, rule unlockSite_no_match_session)
  show ?thesis by (rule conjI [OF m conjI [OF f conjI [OF n s]]])
qed

theorem unlockSite_fails_closed_witness:
  "fst (unlockSite ''t0k'' ''old-cached'' example_world) = Inr False
   \<and> settings (snd (unlockSite ''t0k'' ''old-cached'' example_world)) = example_settings
   \<and> sessionStorage (snd (unlockSite ''t0k'' ''old-cached'' example_world)) = empty_storage
   \<and> console (snd (unlockSite ''t0k'' ''old-cached'' example_world)) = []
   \<and> fst (unlockSite ''t0k'' ''open-sesame'' offline_world) = Inr False
   \<and> settings (snd (unlockSite ''t0k'' ''open-sesame'' offline_world)) = example_settings
   \<and> sessionStorage (snd (unlockSite ''t0k'' ''open-sesame'' offline_world)) = empty_storage
   \<and> console (snd (unlockSite ''t0k'' ''open-sesame'' offline_world)) =
        [ConsoleError ''Error unlocking site with Firebase:'' ''network error'']"
proof -
  have a: "unlockSite ''t0k'' ''old-cached'' example_world =
        (Inr False,
         example_world\<lparr> remote := (remote example_world)
              \<lparr> calls := calls (remote example_world) @
                   [ReadCall ''siteSettings/passwordProtection/password''] \<rparr> \<rparr>)"
    by (rule unlockSite_fails_closed [THEN conjunct1, THEN mp])
       (simp add: example_world_simps example_remote_simps)
  have b: "unlockSite ''t0k'' ''open-sesame'' offline_world =
        (Inr False,
         offline_world\<lparr> remote := (remote offline_world)
              \<lparr> calls := calls (remote offline_world) @
                   [ReadCall ''siteSettings/passwordProtection/password''] \<rparr>,
            console := console offline_world @
              [ConsoleError ''Error unlocking site with Firebase:'' ''network error''] \<rparr>)"
    by (rule unlockSite_fails_closed [THEN conjunct2, THEN conjunct1, THEN mp])
       (simp add: offline_world_simps offline_remote_simps)
  show ?thesis
    unfolding a b by (simp add: example_world_simps offline_world_simps)
qed

section \<open>Switching the password gate\<close>

lemma togglePasswordProtection_ok:
  "write_fault (remote w) ''siteSettings/passwordProtection/enabled'' = None \<Longrightarrow>
   togglePasswordProtection enabled w =
     (Inr (),
      w\<lparr> remote := (remote w)
           \<lparr> root := jset (root (remote w))
                       [''siteSettings'', ''passwordProtection'', ''enabled''] (JBool enabled),
             calls := calls (remote w) @
                [WriteCall ''siteSettings/passwordProtection/enabled'' (JBool enabled)] \<rparr>,
         console := console w @
           [ConsoleLog (''Password protection '' @
                        (if enabled then ''enabled'' else ''disabled'') @ '' in Firebase'')],
         settings := (settings w)
           \<lparr> passwordProtection :=
               (passwordProtection (settings w))\<lparr> pp_enabled := enabled \<rparr> \<rparr> \<rparr>)"
  by (simp add: togglePasswordProtection_def writeData_ok path_keys_enabled)

lemma togglePasswordProtection_fail:
  "write_fault (remote w) ''siteSettings/passwordProtection/enabled'' = Some e \<Longrightarrow>
   togglePasswordProtection enabled w =
     (Inr (),
      w\<lparr> remote := (remote w)
           \<lparr> calls := calls (remote w) @
                [WriteCall ''siteSettings/passwordProtection/enabled'' (JBool enabled)] \<rparr>,
         console := console w @ [ConsoleError ''Error toggling password protection:'' e],
         alerts := alerts w @
           [''Error updating password protection setting. Please try again.''] \<rparr>)"
  by (simp add: togglePasswordProtection_def writeData_fail)

lemma togglePasswordProtection_ok_effects:
  assumes "write_fault (remote w) ''siteSettings/passwordProtection/enabled'' = None"
  shows "fst (togglePasswordProtection enabled w) = Inr ()
     \<and> calls (remote (snd (togglePasswordProtection enabled w))) =
         calls (remote w) @
           [WriteCall ''siteSettings/passwordProtection/enabled'' (JBool enabled)]
     \<and> jget (root (remote (snd (togglePasswordProtection enabled w))))
           [''siteSettings'', ''passwordProtection'', ''enabled''] = JBool enabled
     \<and> settings (snd (togglePasswordProtection enabled w)) =
         (settings w)\<lparr> passwordProtection :=
                          (passwordProtection (settings w))\<lparr> pp_enabled := enabled \<rparr> \<rparr>
     \<and> alerts (snd (togglePasswordProtection enabled w)) = alerts w"
  by (simp add: togglePasswordProtection_ok [OF assms] jget_jset_same)

lemma togglePasswordProtection_fail_effects:
  assumes "write_fault (remote w) ''siteSettings/passwordProtection/enabled'' = Some e"
  shows "fst (togglePasswordProtection enabled w) = Inr ()
     \<and> settings (snd (togglePasswordProtection enabled w)) = settings w
     \<and> root (remote (snd (togglePasswordProtection enabled w))) = root (remote w)
     \<and> alerts (snd (togglePasswordProtection enabled w)) =
         alerts w @ [''Error updating password protection setting. Please try again.'']
     \<and> console (snd (togglePasswordProtection enabled w)) =
         console w @ [ConsoleError ''Error toggling password protection:'' e]"
  by (simp add: togglePasswordProtection_fail [OF assms])

text \<open>
  C6. \<open>togglePasswordProtection enabled\<close> writes the flag to
  \<^verbatim>\<open>siteSettings/passwordProtection/enabled\<close>. When the write succeeds, the
  store holds the flag at that path, the local \<open>passwordProtection.enabled\<close>
  is the same flag (the password is kept) and no alert is shown. When the
  write fails, the local state and the store's content are as before, the
  error is logged, the alert is shown, and the promise is fulfilled.
\<close>

theorem togglePasswordProtection_write_then_local:
  "(write_fault (remote w) ''siteSettings/passwordProtection/enabled'' = None \<longrightarrow>
      fst (togglePasswordProtection enabled w) = Inr ()
      \<and> calls (remote (snd (togglePasswordProtection enabled w))) =
          calls (remote w) @
            [WriteCall ''siteSettings/passwordProtection/enabled'' (JBool enabled)]
      \<and> jget (root (remote (snd (togglePasswordProtection enabled w))))
            [''siteSettings'', ''passwordProtection'', ''enabled''] = JBool enabled
      \<and> settings (snd (togglePasswordProtection enabled w)) =
          (settings w)\<lparr> passwordProtection :=
                           (passwordProtection (settings w))\<lparr> pp_enabled := enabled \<rparr> \<rparr>
      \<and> alerts (snd (togglePasswordProtection enabled w)) = alerts w)
   \<and> (write_fault (remote w) ''siteSettings/passwordProtection/enabled'' = Some e \<longrightarrow>
      fst (togglePasswordProtection enabled w) = Inr ()
      \<and> settings (snd (togglePasswordProtection enabled w)) = settings w
      \<and> root (remote (snd (togglePasswordProtection enabled w))) = root (remote w)
      \<and> alerts (snd (togglePasswordProtection enabled w)) =
          alerts w @ [''Error updating password protection setting. Please try again.'']
      \<and> console (snd (togglePasswordProtection enabled w)) =
          console w @ [ConsoleError ''Error toggling password protection:'' e])"
  (is "?written \<and> ?failed")
proof -
  have a: ?written by (intro impI, rule togglePasswordProtection_ok_effects)
  have b: ?failed by (intro impI, rule togglePasswordProtection_fail_effects)
  show ?thesis by (intro conjI) (fact a, fact b)
qed

theorem togglePasswordProtection_write_then_local_witness:
  "pp_enabled (passwordProtection (settings example_world)) = True
   \<and> settings (snd (togglePasswordProtection False example_world)) =
       example_settings\<lparr> passwordProtection := \<lparr> pp_enabled = False, password = ''old-cached'' \<rparr> \<rparr>
   \<and> jget (root (remote (snd (togglePasswordProtection False example_world))))
         [''siteSettings'', ''passwordProtection'', ''enabled''] = JBool False
   \<and> alerts (snd (togglePasswordProtection False example_world)) = []
   \<and> fst (togglePasswordProtection False offline_world) = Inr ()
   \<and> settings (snd (togglePasswordProtection False offline_world)) = example_settings
   \<and> root (remote (snd (togglePasswordProtection False offline_world))) = root example_remote
   \<and> alerts (snd (togglePasswordProtection False offline_world)) =
       [''Error updating password protection setting. Please try again.'']"
proof -
  have ok: "write_fault (remote example_world) ''siteSettings/passwordProtection/enabled'' = None"
    by (simp add: example_world_simps example_remote_simps)
  have off: "write_fault (remote offline_world) ''siteSettings/passwordProtection/enabled'' =
      Some ''network error''"
    by (simp add: offline_world_simps offline_remote_simps)
  note a = togglePasswordProtection_write_then_local
             [where w = example_world and enabled = False and e = "[]", THEN conjunct1, THEN mp, OF ok]
  note b = togglePasswordProtection_write_then_local
             [where w = offline_world and enabled = False and e = "''network error''", THEN conjunct2, THEN mp, OF off]
  show ?thesis
    using a b
    by (simp add: example_world_simps offline_world_simps offline_remote_simps
          example_settings_def)
qed

section \<open>Partial updates of a sub-object\<close>




lemma updateCountdownSettings_fail:
  "write_fault (remote w) ''siteSettings/countdownSettings'' = Some e \<Longrightarrow>
   updateCountdownSettings rendered new w =
     (Inl e,
      w\<lparr> remote := (remote w)
           \<lparr> calls := calls (remote w) @
                [WriteCall ''siteSettings/countdownSettings''
                   (js_CountdownSettings
                      (spread_CountdownSettings (countdownSettings rendered) new))] \<rparr> \<rparr>)"
  by (simp add: updateCountdownSettings_def writeData_fail Let_def)

lemma updateShippingSettings_fail:
  "write_fault (remote w) ''siteSettings/shippingSettings'' = Some e \<Longrightarrow>
   updateShippingSettings rendered new w =
     (Inl e,
      w\<lparr> remote := (remote w)
           \<lparr> calls := calls (remote w) @
                [WriteCall ''siteSettings/shippingSettings''
                   (js_ShippingSettings
                      (spread_ShippingSettings (shippingSettings rendered) new))] \<rparr> \<rparr>)"
  by (simp add: updateShippingSettings_def writeData_fail Let_def)

lemma updateSocialMediaSettings_fail:
  "write_fault (remote w) ''siteSettings/socialMedia'' = Some e \<Longrightarrow>
   updateSocialMediaSettings rendered new w =
     (Inl e,
      w\<lparr> remote := (remote w)
           \<lparr> calls := calls (remote w) @
                [WriteCall ''siteSettings/socialMedia''
                   (js_SocialMediaSettings
                      (spread_SocialMediaSettings (socialMedia rendered) new))] \<rparr> \<rparr>)"
  by (simp add: updateSocialMediaSettings_def writeData_fail Let_def)













section \<open>Failure of a remote call\<close>

text \<open>
  The two mutations whose remote call sits in a \<^verbatim>\<open>try\<close> block never
  reject.
\<close>

lemma changePassword_fulfils: "fst (changePassword newPassword w) = Inr ()"
  by (cases "write_fault (remote w) ''siteSettings/passwordProtection/password''")
     (simp_all add: changePassword_def writeData_def Let_def)

lemma togglePasswordProtection_fulfils: "fst (togglePasswordProtection enabled w) = Inr ()"
  by (cases "write_fault (remote w) ''siteSettings/passwordProtection/enabled''")
     (simp_all add: togglePasswordProtection_def writeData_def)

text \<open>
  C4. The three partial updates await \<^verbatim>\<open>writeData\<close> outside any \<^verbatim>\<open>try\<close>.
  With a store whose writes fail, each of them rejects with the store's error,
  logs nothing and shows no alert, where \<open>togglePasswordProtection\<close> in front
  of the same store is fulfilled and shows its alert.
\<close>

theorem partial_update_write_failure_rejects:
  "fst (updateShippingSettings example_settings
          \<lparr> provinces_opt = None, freeShippingThreshold_opt = None,
            minPrice_opt = Some 400, maxPrice_opt = None \<rparr> offline_world) =
     Inl ''network error''
   \<and> console (snd (updateShippingSettings example_settings
          \<lparr> provinces_opt = None, freeShippingThreshold_opt = None,
            minPrice_opt = Some 400, maxPrice_opt = None \<rparr> offline_world)) = []
   \<and> alerts (snd (updateShippingSettings example_settings
          \<lparr> provinces_opt = None, freeShippingThreshold_opt = None,
            minPrice_opt = Some 400, maxPrice_opt = None \<rparr> offline_world)) = []
   \<and> fst (updateCountdownSettings example_settings
          \<lparr> cd_enabled_opt = Some True, targetDate_opt = None, title_opt = None \<rparr>
          offline_world) = Inl ''network error''
   \<and> console (snd (updateCountdownSettings example_settings
          \<lparr> cd_enabled_opt = Some True, targetDate_opt = None, title_opt = None \<rparr>
          offline_world)) = []
   \<and> alerts (snd (updateCountdownSettings example_settings
          \<lparr> cd_enabled_opt = Some True, targetDate_opt = None, title_opt = None \<rparr>
          offline_world)) = []
   \<and> fst (updateSocialMediaSettings example_settings
          \<lparr> instagram_opt = None, twitter_opt = None, facebook_opt = None,
            youtube_opt = None, tiktok_opt = None, sm_enabled_opt = Some True \<rparr>
          offline_world) = Inl ''network error''
   \<and> console (snd (updateSocialMediaSettings example_settings
          \<lparr> instagram_opt = None, twitter_opt = None, facebook_opt = None,
            youtube_opt = None, tiktok_opt = None, sm_enabled_opt = Some True \<rparr>
          offline_world)) = []
   \<and> alerts (snd (updateSocialMediaSettings example_settings
          \<lparr> instagram_opt = None, twitter_opt = None, facebook_opt = None,
            youtube_opt = None, tiktok_opt = None, sm_enabled_opt = Some True \<rparr>
          offline_world)) = []
   \<and> fst (togglePasswordProtection False offline_world) = Inr ()
   \<and> alerts (snd (togglePasswordProtection False offline_world)) =
       [''Error updating password protection setting. Please try again.'']"
proof -
  have off: "\<And>path. write_fault (remote offline_world) path = Some ''network error''"
    by (simp add: offline_world_simps offline_remote_simps)
  show ?thesis
    by (simp add: updateShippingSettings_fail [OF off] updateCountdownSettings_fail [OF off]
          updateSocialMediaSettings_fail [OF off] togglePasswordProtection_fail [OF off]
          offline_world_simps)
qed

section \<open>Seeding the store\<close>

lemma initializeSettings_cases:
  obtains (read_failed) e where "read_fault (remote w) ''siteSettings'' = Some e"
  | (present) "read_fault (remote w) ''siteSettings'' = None"
      "jget (root (remote w)) [''siteSettings''] \<noteq> JNull"
  | (absent_write_failed) e where "read_fault (remote w) ''siteSettings'' = None"
      "jget (root (remote w)) [''siteSettings''] = JNull"
      "write_fault (remote w) ''siteSettings'' = Some e"
  | (absent_written) "read_fault (remote w) ''siteSettings'' = None"
      "jget (root (remote w)) [''siteSettings''] = JNull"
      "write_fault (remote w) ''siteSettings'' = None"
  by (cases "read_fault (remote w) ''siteSettings''";
      cases "write_fault (remote w) ''siteSettings''") auto

lemma initializeSettings_read_failed:
  "read_fault (remote w) ''siteSettings'' = Some e \<Longrightarrow>
   initializeSettings env w =
     (Inl e, w\<lparr> remote := (remote w)
                 \<lparr> calls := calls (remote w) @ [ReadCall ''siteSettings''] \<rparr> \<rparr>)"
  by (simp add: initializeSettings_def readData_fail)

lemma initializeSettings_present:
  "read_fault (remote w) ''siteSettings'' = None \<Longrightarrow>
   jget (root (remote w)) [''siteSettings''] \<noteq> JNull \<Longrightarrow>
   initializeSettings env w =
     (Inr (), w\<lparr> remote := (remote w)
                  \<lparr> calls := calls (remote w) @ [ReadCall ''siteSettings''] \<rparr> \<rparr>)"
  by (simp add: initializeSettings_def readData_ok snapshot_exists_def path_keys_siteSettings)

lemma initializeSettings_absent_write_failed:
  "read_fault (remote w) ''siteSettings'' = None \<Longrightarrow>
   jget (root (remote w)) [''siteSettings''] = JNull \<Longrightarrow>
   write_fault (remote w) ''siteSettings'' = Some e \<Longrightarrow>
   initializeSettings env w =
     (Inl e, w\<lparr> remote := (remote w)
                 \<lparr> calls := calls (remote w) @
                      [ReadCall ''siteSettings'',
                       WriteCall ''siteSettings'' (initial_document env)] \<rparr> \<rparr>)"
  by (simp add: initializeSettings_def readData_ok snapshot_exists_def path_keys_siteSettings
        writeData_fail)

lemma initializeSettings_absent_written:
  "read_fault (remote w) ''siteSettings'' = None \<Longrightarrow>
   jget (root (remote w)) [''siteSettings''] = JNull \<Longrightarrow>
   write_fault (remote w) ''siteSettings'' = None \<Longrightarrow>
   initializeSettings env w =
     (Inr (), w\<lparr> remote := (remote w)
                  \<lparr> root := jset (root (remote w)) [''siteSettings''] (initial_document env),
                    calls := calls (remote w) @
                      [ReadCall ''siteSettings'',
                       WriteCall ''siteSettings'' (initial_document env)] \<rparr>,
                console := console w @
                  [ConsoleLog ''Initialized default settings in Firebase''] \<rparr>)"
  by (simp add: initializeSettings_def readData_ok snapshot_exists_def path_keys_siteSettings
        writeData_ok)

lemma initial_document_not_null: "initial_document env \<noteq> JNull"
  by (simp add: initial_document_def)

lemma initializeSettings_calls:
  "calls (remote (snd (initializeSettings env w))) =
     calls (remote w) @ [ReadCall ''siteSettings'']
   \<or> (jget (root (remote w)) [''siteSettings''] = JNull
      \<and> calls (remote (snd (initializeSettings env w))) =
          calls (remote w) @
            [ReadCall ''siteSettings'', WriteCall ''siteSettings'' (initial_document env)])"
proof (cases rule: initializeSettings_cases [of w])
  case (read_failed e)
  then show ?thesis by (simp add: initializeSettings_read_failed)
next
  case present
  then show ?thesis by (simp add: initializeSettings_present)
next
  case (absent_write_failed e)
  then show ?thesis by (simp add: initializeSettings_absent_write_failed)
next
  case absent_written
  then show ?thesis by (simp add: initializeSettings_absent_written)
qed

lemma initializeSettings_keeps_existing:
  assumes "jget (root (remote w)) [''siteSettings''] \<noteq> JNull"
  shows "root (remote (snd (initializeSettings env w))) = root (remote w)
     \<and> calls (remote (snd (initializeSettings env w))) =
         calls (remote w) @ [ReadCall ''siteSettings'']"
proof (cases rule: initializeSettings_cases [of w])
  case (read_failed e)
  then show ?thesis by (simp add: initializeSettings_read_failed)
next
  case present
  then show ?thesis by (simp add: initializeSettings_present)
next
  case (absent_write_failed e)
  then show ?thesis using assms by simp
next
  case absent_written
  then show ?thesis using assms by simp
qed

lemma initializeSettings_seeds:
  assumes "read_fault (remote w) ''siteSettings'' = None"
      and "write_fault (remote w) ''siteSettings'' = None"
      and "jget (root (remote w)) [''siteSettings''] = JNull"
  shows "fst (initializeSettings env w) = Inr ()
     \<and> jget (root (remote (snd (initializeSettings env w)))) [''siteSettings''] =
         initial_document env
     \<and> calls (remote (snd (initializeSettings env w))) =
         calls (remote w) @
           [ReadCall ''siteSettings'', WriteCall ''siteSettings'' (initial_document env)]"
  by (simp add: initializeSettings_absent_written [OF assms(1) assms(3) assms(2)]
        jget_jset_same)

lemma initializeSettings_faults:
  "read_fault (remote (snd (initializeSettings env w))) = read_fault (remote w)
   \<and> write_fault (remote (snd (initializeSettings env w))) = write_fault (remote w)"
proof (cases rule: initializeSettings_cases [of w])
  case (read_failed e)
  then show ?thesis by (simp add: initializeSettings_read_failed)
next
  case present
  then show ?thesis by (simp add: initializeSettings_present)
next
  case (absent_write_failed e)
  then show ?thesis by (simp add: initializeSettings_absent_write_failed)
next
  case absent_written
  then show ?thesis by (simp add: initializeSettings_absent_written)
qed

lemma initializeSettings_then_present:
  assumes "read_fault (remote w) ''siteSettings'' = None"
      and "write_fault (remote w) ''siteSettings'' = None"
  shows "jget (root (remote (snd (initializeSettings env w)))) [''siteSettings''] \<noteq> JNull"
proof (cases "jget (root (remote w)) [''siteSettings''] = JNull")
  case True
  then show ?thesis
    using initializeSettings_seeds [OF assms True, of env] initial_document_not_null [of env]
    by simp
next
  case False
  then show ?thesis
    using initializeSettings_keeps_existing [OF False, of env] by simp
qed

lemma initializeSettings_twice:
  assumes "read_fault (remote w) ''siteSettings'' = None"
      and "write_fault (remote w) ''siteSettings'' = None"
  shows "root (remote (snd (initializeSettings env (snd (initializeSettings env w))))) =
         root (remote (snd (initializeSettings env w)))
     \<and> calls (remote (snd (initializeSettings env (snd (initializeSettings env w))))) =
         calls (remote (snd (initializeSettings env w))) @ [ReadCall ''siteSettings'']"
  by (rule initializeSettings_keeps_existing [OF initializeSettings_then_present [OF assms]])

text \<open>
  C2. \<open>initializeSettings\<close> reads \<^verbatim>\<open>siteSettings\<close> once and writes, if at
  all, the full default document, and only when the document is absent. In
  front of a store that holds a settings document it writes nothing and the
  store's content is as before. Run a second time after a first run whose
  calls succeeded, it reads once more and leaves the content as the first run
  left it.
\<close>

theorem initializeSettings_seeds_only_when_absent:
  "(calls (remote (snd (initializeSettings env w))) =
      calls (remote w) @ [ReadCall ''siteSettings'']
    \<or> (jget (root (remote w)) [''siteSettings''] = JNull
       \<and> calls (remote (snd (initializeSettings env w))) =
           calls (remote w) @
             [ReadCall ''siteSettings'', WriteCall ''siteSettings'' (initial_document env)]))
   \<and> (jget (root (remote w)) [''siteSettings''] \<noteq> JNull \<longrightarrow>
        root (remote (snd (initializeSettings env w))) = root (remote w)
        \<and> calls (remote (snd (initializeSettings env w))) =
            calls (remote w) @ [ReadCall ''siteSettings''])
   \<and> (read_fault (remote w) ''siteSettings'' = None \<and>
       write_fault (remote w) ''siteSettings'' = None \<and>
       jget (root (remote w)) [''siteSettings''] = JNull \<longrightarrow>
        fst (initializeSettings env w) = Inr ()
        \<and> jget (root (remote (snd (initializeSettings env w)))) [''siteSettings''] =
            initial_document env
        \<and> calls (remote (snd (initializeSettings env w))) =
            calls (remote w) @
              [ReadCall ''siteSettings'', WriteCall ''siteSettings'' (initial_document env)])
   \<and> (read_fault (remote w) ''siteSettings'' = None \<and>
       write_fault (remote w) ''siteSettings'' = None \<longrightarrow>
        root (remote (snd (initializeSettings env (snd (initializeSettings env w))))) =
          root (remote (snd (initializeSettings env w)))
        \<and> calls (remote (snd (initializeSettings env (snd (initializeSettings env w))))) =
            calls (remote (snd (initializeSettings env w))) @ [ReadCall ''siteSettings''])"
  (is "?once \<and> ?present \<and> ?absent \<and> ?twice")
proof -
  have a: ?once by (rule initializeSettings_calls)
  have b: ?present by (intro impI, rule initializeSettings_keeps_existing)
  have c: ?absent by (intro impI, elim conjE, rule initializeSettings_seeds)
  have d: ?twice by (intro impI, elim conjE, rule initializeSettings_twice)
  show ?thesis by (rule conjI [OF a conjI [OF b conjI [OF c d]]])
qed

theorem initializeSettings_seeds_only_when_absent_witness:
  "root (remote (snd (initializeSettings example_env example_world))) = root example_remote
   \<and> calls (remote (snd (initializeSettings example_env example_world))) =
       [ReadCall ''siteSettings'']
   \<and> jget (root (remote (snd (initializeSettings example_env
         (example_world\<lparr> remote := empty_remote \<rparr>))))) [''siteSettings''] =
       initial_document example_env
   \<and> calls (remote (snd (initializeSettings example_env
         (example_world\<lparr> remote := empty_remote \<rparr>)))) =
       [ReadCall ''siteSettings'', WriteCall ''siteSettings'' (initial_document example_env)]
   \<and> root (remote (snd (initializeSettings example_env
         (snd (initializeSettings example_env (example_world\<lparr> remote := empty_remote \<rparr>)))))) =
       root (remote (snd (initializeSettings example_env
         (example_world\<lparr> remote := empty_remote \<rparr>))))"
proof -
  have present: "jget (root (remote example_world)) [''siteSettings''] \<noteq> JNull"
    by (simp add: example_world_simps example_remote_def)
  have rd: "read_fault (remote (example_world\<lparr> remote := empty_remote \<rparr>)) ''siteSettings'' = None"
    by (simp add: empty_remote_simps)
  have wr: "write_fault (remote (example_world\<lparr> remote := empty_remote \<rparr>)) ''siteSettings'' = None"
    by (simp add: empty_remote_simps)
  have absent: "jget (root (remote (example_world\<lparr> remote := empty_remote \<rparr>)))
                  [''siteSettings''] = JNull"
    by (simp add: empty_remote_simps)
  note a = initializeSettings_seeds_only_when_absent
      [where w = example_world and env = example_env,
       THEN conjunct2, THEN conjunct1, THEN mp, OF present]
  note b = initializeSettings_seeds_only_when_absent
      [where w = "example_world\<lparr> remote := empty_remote \<rparr>" and env = example_env,
       THEN conjunct2, THEN conjunct2, THEN conjunct1, THEN mp,
       OF conjI [OF rd conjI [OF wr absent]]]
  note c = initializeSettings_seeds_only_when_absent
      [where w = "example_world\<lparr> remote := empty_remote \<rparr>" and env = example_env,
       THEN conjunct2, THEN conjunct2, THEN conjunct2, THEN mp, OF conjI [OF rd wr]]
  show ?thesis
    using a b c by (simp add: example_world_simps example_remote_simps empty_remote_simps)
qed

section \<open>The admin gate\<close>

lemma adminLogin_result:
  "fst (adminLogin email pwd w) =
     Inr (email = ''admin@example.com'' \<and> pwd = ''admin123''
          \<and> setItem_fault (localStorage w) ''adminLoggedIn'' = None)"
  by (cases "setItem_fault (localStorage w) ''adminLoggedIn''")
     (simp_all add: adminLogin_def setItem_def)

lemma adminLogin_success:
  "setItem_fault (localStorage w) ''adminLoggedIn'' = None \<Longrightarrow>
   snd (adminLogin ''admin@example.com'' ''admin123'' w) =
     w\<lparr> localStorage := (localStorage w)
          \<lparr> items := (items (localStorage w))(''adminLoggedIn'' \<mapsto> ''true'') \<rparr>,
        settings := (settings w)\<lparr> isAdmin := True \<rparr> \<rparr>"
  by (simp add: adminLogin_def setItem_def)

lemma adminLogin_refused:
  "\<not> (email = ''admin@example.com'' \<and> pwd = ''admin123'') \<Longrightarrow>
   snd (adminLogin email pwd w) = w"
  by (auto simp add: adminLogin_def)

lemma adminLogin_storage_refused:
  "setItem_fault (localStorage w) ''adminLoggedIn'' = Some e \<Longrightarrow>
   adminLogin ''admin@example.com'' ''admin123'' w =
     (Inr False, w\<lparr> console := console w @ [ConsoleError ''Admin login error:'' e] \<rparr>)"
  by (simp add: adminLogin_def setItem_def)

lemma adminLogout_effects:
  "getItem ''adminLoggedIn'' (localStorage (adminLogout w)) = None
   \<and> isAdmin (settings (adminLogout w)) = False
   \<and> remote (adminLogout w) = remote w
   \<and> sessionStorage (adminLogout w) = sessionStorage w
   \<and> isUnlocked (settings (adminLogout w)) = isUnlocked (settings w)"
  by (simp add: adminLogout_def getItem_def removeItem_def)

lemma initializeSettings_frame:
  "settings (snd (initializeSettings env w)) = settings w
   \<and> sessionStorage (snd (initializeSettings env w)) = sessionStorage w
   \<and> localStorage (snd (initializeSettings env w)) = localStorage w
   \<and> alerts (snd (initializeSettings env w)) = alerts w"
proof (cases rule: initializeSettings_cases [of w])
  case (read_failed e)
  then show ?thesis by (simp add: initializeSettings_read_failed)
next
  case present
  then show ?thesis by (simp add: initializeSettings_present)
next
  case (absent_write_failed e)
  then show ?thesis by (simp add: initializeSettings_absent_write_failed)
next
  case absent_written
  then show ?thesis by (simp add: initializeSettings_absent_written)
qed

lemma mountEffect_isAdmin:
  "isAdmin (settings (mountEffect env w)) =
     (isAdmin (settings w) \<or> getItem ''adminLoggedIn'' (localStorage w) = Some ''true'')"
proof -
  obtain res w' where iw: "initializeSettings env w = (res, w')"
    by (cases "initializeSettings env w")
  have fr: "settings w' = settings w" "sessionStorage w' = sessionStorage w"
    "localStorage w' = localStorage w"
    using initializeSettings_frame [of env w] by (simp_all add: iw)
  show ?thesis
    by (cases res) (simp_all add: mountEffect_def iw fr Let_def)
qed

lemma mountEffect_isUnlocked:
  "isUnlocked (settings (mountEffect env w)) =
     (isUnlocked (settings w) \<or> getItem ''siteUnlocked'' (sessionStorage w) = Some ''true'')"
proof -
  obtain res w' where iw: "initializeSettings env w = (res, w')"
    by (cases "initializeSettings env w")
  have fr: "settings w' = settings w" "sessionStorage w' = sessionStorage w"
    "localStorage w' = localStorage w"
    using initializeSettings_frame [of env w] by (simp_all add: iw)
  show ?thesis
    by (cases res) (simp_all add: mountEffect_def iw fr Let_def)
qed

lemma start_isAdmin:
  "isAdmin (settings (SiteSettingsProvider_start env r session durable)) =
     (getItem ''adminLoggedIn'' durable = Some ''true'')"
  by (simp add: SiteSettingsProvider_start_def mountEffect_isAdmin defaultSettings_def)

text \<open>
  C7, as the code has it. \<open>adminLogin\<close> returns true exactly when the pair is
  \<^verbatim>\<open>admin@example.com\<close>, \<^verbatim>\<open>admin123\<close> and local storage accepts the
  flag; it then holds \<^verbatim>\<open>adminLoggedIn\<close> in local storage and sets
  \<open>isAdmin\<close>. For every other pair it returns false and changes nothing.
  When local storage refuses the flag for the right pair, it logs the error,
  returns false, and neither the flag nor \<open>isAdmin\<close> is set. \<open>adminLogout\<close>
  removes the stored flag and clears \<open>isAdmin\<close> without touching the store.
  A provider that starts with no stored flag, and one that starts from the
  local storage left by \<open>adminLogout\<close>, has \<open>isAdmin\<close> false.
\<close>

theorem adminLogin_adminLogout_gate_stored:
  "fst (adminLogin email pwd w) =
     Inr (email = ''admin@example.com'' \<and> pwd = ''admin123''
          \<and> setItem_fault (localStorage w) ''adminLoggedIn'' = None)
   \<and> (setItem_fault (localStorage w) ''adminLoggedIn'' = None \<longrightarrow>
        snd (adminLogin ''admin@example.com'' ''admin123'' w) =
          w\<lparr> localStorage := (localStorage w)
               \<lparr> items := (items (localStorage w))(''adminLoggedIn'' \<mapsto> ''true'') \<rparr>,
             settings := (settings w)\<lparr> isAdmin := True \<rparr> \<rparr>)
   \<and> (\<not> (email = ''admin@example.com'' \<and> pwd = ''admin123'') \<longrightarrow>
        snd (adminLogin email pwd w) = w)
   \<and> (setItem_fault (localStorage w) ''adminLoggedIn'' = Some e \<longrightarrow>
        adminLogin ''admin@example.com'' ''admin123'' w =
          (Inr False, w\<lparr> console := console w @ [ConsoleError ''Admin login error:'' e] \<rparr>))
   \<and> (getItem ''adminLoggedIn'' (localStorage (adminLogout w)) = None
      \<and> isAdmin (settings (adminLogout w)) = False
      \<and> remote (adminLogout w) = remote w
      \<and> sessionStorage (adminLogout w) = sessionStorage w
      \<and> isUnlocked (settings (adminLogout w)) = isUnlocked (settings w))
   \<and> (getItem ''adminLoggedIn'' durable = None \<longrightarrow>
        isAdmin (settings (SiteSettingsProvider_start env r session durable)) = False)
   \<and> isAdmin (settings (SiteSettingsProvider_start env r session
                           (localStorage (adminLogout w)))) = False"
  (is "?result \<and> ?accepted \<and> ?refused \<and> ?storage \<and> ?logout \<and> ?fresh \<and> ?after_logout")
proof -
  have a: ?result by (rule adminLogin_result)
  have b: ?accepted by (intro impI, rule adminLogin_success)
  have c: ?refused by (intro impI, rule adminLogin_refused)
  have s: ?storage by (intro impI, rule adminLogin_storage_refused)
  have d: ?logout by (rule adminLogout_effects)
  have e: ?fresh by (simp add: start_isAdmin)
  have f: ?after_logout
    using adminLogout_effects [of w] by (simp add: start_isAdmin)
  show ?thesis
    by (rule conjI [OF a conjI [OF b conjI [OF c conjI [OF s conjI [OF d conjI [OF e f]]]]]])
qed

theorem adminLogin_adminLogout_gate_stored_witness:
  "fst (adminLogin ''admin@example.com'' ''admin123'' example_world) = Inr True
   \<and> isAdmin (settings (snd (adminLogin ''admin@example.com'' ''admin123'' example_world))) = True
   \<and> getItem ''adminLoggedIn''
        (localStorage (snd (adminLogin ''admin@example.com'' ''admin123'' example_world))) =
       Some ''true''
   \<and> fst (adminLogin ''x'' ''y'' example_world) = Inr False
   \<and> snd (adminLogin ''x'' ''y'' example_world) = example_world
   \<and> fst (adminLogin ''admin@example.com'' ''Admin123'' example_world) = Inr False
   \<and> adminLogin ''admin@example.com'' ''admin123'' quota_world =
       (Inr False,
        quota_world\<lparr> console := [ConsoleError ''Admin login error:'' ''QuotaExceededError''] \<rparr>)
   \<and> isAdmin (settings (SiteSettingsProvider_start example_env example_remote
                           empty_storage empty_storage)) = False"
proof -
  have ok: "setItem_fault (localStorage example_world) ''adminLoggedIn'' = None"
    by (simp add: example_world_simps storage_simps)
  have full: "setItem_fault (localStorage quota_world) ''adminLoggedIn'' =
                Some ''QuotaExceededError''"
    by (simp add: quota_world_simps storage_simps)
  have ne: "\<not> (''x'' = ''admin@example.com'' \<and> ''y'' = ''admin123'')" by simp
  have none: "getItem ''adminLoggedIn'' empty_storage = None"
    by (simp add: getItem_def storage_simps)
  note a = adminLogin_adminLogout_gate_stored
      [where email = "''admin@example.com''" and pwd = "''admin123''" and w = example_world,
       THEN conjunct1]
  note a' = adminLogin_adminLogout_gate_stored
      [where w = example_world, THEN conjunct2, THEN conjunct1, THEN mp, OF ok]
  note b = adminLogin_adminLogout_gate_stored
      [where email = "''x''" and pwd = "''y''" and w = example_world, THEN conjunct1]
  note c = adminLogin_adminLogout_gate_stored
      [where email = "''x''" and pwd = "''y''" and w = example_world,
       THEN conjunct2, THEN conjunct2, THEN conjunct1, THEN mp, OF ne]
  note d = adminLogin_adminLogout_gate_stored
      [where email = "''admin@example.com''" and pwd = "''Admin123''" and w = example_world,
       THEN conjunct1]
  note q = adminLogin_adminLogout_gate_stored
      [where w = quota_world and e = "''QuotaExceededError''",
       THEN conjunct2, THEN conjunct2, THEN conjunct2, THEN conjunct1, THEN mp, OF full]
  note e = adminLogin_adminLogout_gate_stored
      [where durable = empty_storage and env = example_env and r = example_remote
         and session = empty_storage,
       THEN conjunct2, THEN conjunct2, THEN conjunct2, THEN conjunct2, THEN conjunct2,
       THEN conjunct1, THEN mp, OF none]
  show ?thesis
    unfolding a a' b c d q e
    by (simp add: ok getItem_def quota_world_simps)
qed

text \<open>
  Against C7 as stated: where local storage refuses the flag, the pair is the
  right one and the result is false, with the error on the console and
  \<open>isAdmin\<close> as before.
\<close>

theorem adminLogin_fixed_credentials_counterexample:
  "fst (adminLogin ''admin@example.com'' ''admin123'' quota_world) = Inr False
   \<and> console (snd (adminLogin ''admin@example.com'' ''admin123'' quota_world)) =
       [ConsoleError ''Admin login error:'' ''QuotaExceededError'']
   \<and> isAdmin (settings (snd (adminLogin ''admin@example.com'' ''admin123'' quota_world))) =
       False
   \<and> getItem ''adminLoggedIn''
        (localStorage (snd (adminLogin ''admin@example.com'' ''admin123'' quota_world))) = None"
proof -
  have full: "setItem_fault (localStorage quota_world) ''adminLoggedIn'' =
                Some ''QuotaExceededError''"
    by (simp add: quota_world_simps storage_simps)
  show ?thesis
    unfolding adminLogin_storage_refused [OF full]
    by (simp add: quota_world_simps getItem_def storage_simps example_settings_def)
qed

end
